theory Spec2Isabelle
  imports Complex_Main
begin

section \<open>Python values shared by the modules\<close>

text \<open>
  An exception is its class name and the text that \<^verbatim>\<open>str(e)\<close> gives. A call that may
  raise returns \<open>py_exception + 'a\<close>, \<open>Inl\<close> being the raise.
\<close>

datatype py_exception = PyException (exc_type: string) (exc_text: string)

text \<open>
  The module loggers. A logger call appends one record and returns. Wall-clock durations
  and the exact layout of formatted lists are not part of a record: a record keeps the
  values that the f-string of the source interpolates.
\<close>

datatype log_record =
    LogInfo string
  | LogError string
  | LogDebug string
  | LogCategories "string list option"
  | LogInvoking string "string option" "string option"
  | LogToolArgs string string
  | LogProcessing "string option" "string option"
  | LogInspectFailed py_exception
  | LogCompletedTool string
  | LogCompleted "string option"
  | LogListAll
  | LogListFiltered "string list" nat
  | LogStartingHttp int

section \<open>server.py: \<^verbatim>\<open>_safe_dump\<close>\<close>

text \<open>
  \<^verbatim>\<open>s[:n]\<close> of Python: a negative bound counts from the end of the string.
\<close>

definition slice_to :: "'a list \<Rightarrow> int \<Rightarrow> 'a list" where
  "slice_to s n = (if 0 \<le> n then take (nat n) s else take (nat (int (length s) + n)) s)"

text \<open>
  \<^verbatim>\<open>json.dumps(obj, default=str)\<close> and \<^verbatim>\<open>str(obj)\<close> are library calls on an arbitrary
  object: both are parameters of the model, each returning the string or the exception
  it raises. The source names the function \<^verbatim>\<open>_safe_dump\<close>.
\<close>

definition safe_dump ::
  "('a \<Rightarrow> py_exception + string) \<Rightarrow> ('a \<Rightarrow> py_exception + string) \<Rightarrow> 'a \<Rightarrow> int \<Rightarrow> string"
where
  "safe_dump json_dumps py_str obj max_len =
     (let s = (case json_dumps obj of
                 Inr j \<Rightarrow> j
               | Inl _ \<Rightarrow> (case py_str obj of
                             Inr t \<Rightarrow> t
                           | Inl _ \<Rightarrow> ''<unserializable>''))
      in if int (length s) > max_len then slice_to s max_len @ ''...(truncated)'' else s)"

definition safe_dump_max_len :: int where
  "safe_dump_max_len = 100"

section \<open>settings.py: the process-wide configuration\<close>

text \<open>
  The two attributes of the module \<^verbatim>\<open>settings\<close> that \<^verbatim>\<open>main\<close> assigns and the tag
  filter reads.
\<close>

record settings =
  global_tool_categories :: "string list option"
  global_mcp_mode :: string

section \<open>server.py: \<^verbatim>\<open>TagBasedToolFilterMiddleware.on_list_tools\<close>\<close>

record tool =
  tool_name :: string
  tool_tags :: "string set"

text \<open>
  The \<^verbatim>\<open>for tool in result\<close> loop, with \<^verbatim>\<open>filtered\<close> as the accumulator.
\<close>

fun filter_loop :: "string list \<Rightarrow> tool list \<Rightarrow> tool list \<Rightarrow> tool list" where
  "filter_loop cats [] filtered = filtered"
| "filter_loop cats (t # ts) filtered =
     (if set cats \<inter> tool_tags t \<noteq> {}
      then filter_loop cats ts (filtered @ [t])
      else filter_loop cats ts filtered)"

text \<open>
  The downstream result is awaited first, and a raise of it goes through. Python's
  \<^verbatim>\<open>not settings.global_tool_categories\<close> holds for \<^verbatim>\<open>None\<close> and for the empty list.
\<close>

definition on_list_tools ::
  "settings \<Rightarrow> (py_exception + tool list) \<Rightarrow> (py_exception + tool list) \<times> log_record list"
where
  "on_list_tools st downstream =
     (case downstream of
        Inl e \<Rightarrow> (Inl e, [])
      | Inr result \<Rightarrow>
          (case global_tool_categories st of
             None \<Rightarrow> (Inr result, [LogListAll])
           | Some cats \<Rightarrow>
               if cats = [] then (Inr result, [LogListAll])
               else (let filtered = filter_loop cats result []
                     in (Inr filtered, [LogListFiltered cats (length filtered)]))))"

text \<open>
  The tools that the source registers, by name and tags (\<^verbatim>\<open>demo_tool.py\<close> and
  \<^verbatim>\<open>top_performance.py\<close>).
\<close>

definition add_tool :: tool where
  "add_tool = \<lparr>tool_name = ''add_two_numbers'', tool_tags = {''infra''}\<rparr>"

definition sub_tool :: tool where
  "sub_tool = \<lparr>tool_name = ''subtract_two_numbers'', tool_tags = {''app''}\<rparr>"

definition top_tool :: tool where
  "top_tool = \<lparr>tool_name = ''list_top_applications_by_performance'',
               tool_tags = {''trending'', ''tool''}\<rparr>"

section \<open>server.py: \<^verbatim>\<open>LoggingMiddleware.on_message\<close>\<close>

text \<open>
  The message of a middleware context, as far as \<^verbatim>\<open>on_message\<close> looks at it:
  \<^verbatim>\<open>None\<close>; a dictionary (it has \<^verbatim>\<open>get\<close> and no attribute \<^verbatim>\<open>name\<close>); the parameters
  of a tool call, an object with the attributes \<^verbatim>\<open>name\<close> and \<^verbatim>\<open>arguments\<close> and no
  \<^verbatim>\<open>get\<close>; any other object, with neither.
\<close>

datatype 'a message =
    MsgNone
  | MsgDict "string \<Rightarrow> string option"
  | MsgCallTool string "'a option"
  | MsgObject

record 'a middleware_context =
  ctx_message :: "'a message"
  ctx_method :: "string option"
  ctx_source :: "string option"

definition quoted :: "string \<Rightarrow> string" where
  "quoted s = CHR 0x27 # s @ [CHR 0x27]"

definition AttributeError :: "string \<Rightarrow> string \<Rightarrow> py_exception" where
  "AttributeError cls attr =
     PyException ''AttributeError'' (quoted cls @ '' object has no attribute '' @ quoted attr)"

definition UnboundLocalError :: "string \<Rightarrow> py_exception" where
  "UnboundLocalError v =
     PyException ''UnboundLocalError''
       (''cannot access local variable '' @ quoted v @ '' where it is not associated with a value'')"

text \<open>Truth value of a \<^verbatim>\<open>str | None\<close>: \<^verbatim>\<open>None\<close> and the empty string are false.\<close>

definition truthy :: "string option \<Rightarrow> bool" where
  "truthy v = (case v of None \<Rightarrow> False | Some s \<Rightarrow> s \<noteq> [])"

text \<open>
  Lines 45-47: \<^verbatim>\<open>getattr(context, "method", None) or (context.message or {}).get("method")\<close>.
\<close>

definition read_method :: "'a middleware_context \<Rightarrow> py_exception + string option" where
  "read_method c =
     (if truthy (ctx_method c) then Inr (ctx_method c)
      else (case ctx_message c of
              MsgNone \<Rightarrow> Inr None
            | MsgDict d \<Rightarrow> Inr (d ''method'')
            | MsgCallTool n a \<Rightarrow> Inl (AttributeError ''CallToolRequestParams'' ''get'')
            | MsgObject \<Rightarrow> Inl (AttributeError ''object'' ''get'')))"

text \<open>
  Lines 49-57: \<^verbatim>\<open>msg = getattr(context, "message", None) or {}\<close>, then the name and the
  arguments of the tool when the method is \<^verbatim>\<open>"tools/call"\<close>.
\<close>

definition read_tool ::
  "string option \<Rightarrow> 'a message \<Rightarrow> py_exception + (string option \<times> 'a option)"
where
  "read_tool m msg =
     (if m = Some ''tools/call''
      then (case msg of
              MsgCallTool n a \<Rightarrow> Inr (Some n, a)
            | MsgNone \<Rightarrow> Inl (AttributeError ''dict'' ''name'')
            | MsgDict d \<Rightarrow> Inl (AttributeError ''dict'' ''name'')
            | MsgObject \<Rightarrow> Inl (AttributeError ''object'' ''name''))
      else Inr (None, None))"

text \<open>
  The local variables that the statements after the first \<^verbatim>\<open>try\<close> read. The outer
  \<open>None\<close> is a variable that no assignment has reached.
\<close>

record locals =
  loc_method :: "string option option"
  loc_tool_name :: "string option option"

text \<open>
  The first \<^verbatim>\<open>try\<close> with its handler (lines 44-75): the variables it leaves and the
  records it logs. The handler logs the exception and goes on.
\<close>

definition inspect_message ::
  "('a \<Rightarrow> py_exception + string) \<Rightarrow> ('a \<Rightarrow> py_exception + string) \<Rightarrow>
   'a middleware_context \<Rightarrow> locals \<times> log_record list"
where
  "inspect_message json_dumps py_str c =
     (case read_method c of
        Inl e \<Rightarrow> (\<lparr>loc_method = None, loc_tool_name = None\<rparr>, [LogInspectFailed e])
      | Inr m \<Rightarrow>
          (case read_tool m (ctx_message c) of
             Inl e \<Rightarrow> (\<lparr>loc_method = Some m, loc_tool_name = Some None\<rparr>, [LogInspectFailed e])
           | Inr (tn, ta) \<Rightarrow>
               (\<lparr>loc_method = Some m, loc_tool_name = Some tn\<rparr>,
                (case tn of
                   None \<Rightarrow> [LogProcessing m (ctx_source c)]
                 | Some n \<Rightarrow>
                     if n = [] then [LogProcessing m (ctx_source c)]
                     else LogInvoking n m (ctx_source c) #
                          (case ta of
                             None \<Rightarrow> []
                           | Some a \<Rightarrow>
                               [LogToolArgs n (safe_dump json_dumps py_str a safe_dump_max_len)])))))"

text \<open>The statements of the second \<^verbatim>\<open>try\<close> (lines 86-89).\<close>

definition log_completion :: "locals \<Rightarrow> py_exception + log_record list" where
  "log_completion l =
     (case loc_tool_name l of
        None \<Rightarrow> Inl (UnboundLocalError ''tool_name'')
      | Some tn \<Rightarrow>
          (case tn of
             Some n \<Rightarrow>
               if n = [] then
                 (case loc_method l of
                    None \<Rightarrow> Inl (UnboundLocalError ''method'')
                  | Some m \<Rightarrow> Inr [LogCompleted m])
               else Inr [LogCompletedTool n]
           | None \<Rightarrow>
               (case loc_method l of
                  None \<Rightarrow> Inl (UnboundLocalError ''method'')
                | Some m \<Rightarrow> Inr [LogCompleted m])))"

text \<open>
  \<^verbatim>\<open>on_message\<close>. The downstream handler \<open>call_next\<close> works on a state \<open>'s\<close> of its
  own and returns a result or raises. The function returns the outcome, the state the
  downstream left, and the records logged.
\<close>

definition on_message ::
  "('a \<Rightarrow> py_exception + string) \<Rightarrow> ('a \<Rightarrow> py_exception + string) \<Rightarrow>
   'a middleware_context \<Rightarrow>
   ('a middleware_context \<Rightarrow> 's \<Rightarrow> (py_exception + 'r) \<times> 's) \<Rightarrow> 's \<Rightarrow>
   (py_exception + 'r) \<times> 's \<times> log_record list"
where
  "on_message json_dumps py_str c call_next s =
     (case inspect_message json_dumps py_str c of
        (l, pre_log) \<Rightarrow>
          (case call_next c s of
             (Inl e, s') \<Rightarrow> (Inl e, s', pre_log)
           | (Inr result, s') \<Rightarrow>
               (Inr result, s',
                pre_log @ (case log_completion l of Inl e \<Rightarrow> [] | Inr recs \<Rightarrow> recs))))"

section \<open>server.py: \<^verbatim>\<open>run\<close>\<close>

datatype middleware =
    LoggingMiddleware
  | TagBasedToolFilterMiddleware
  | RateLimitingMiddleware (max_requests_per_second: real) (burst_capacity: int)
  | RetryMiddleware (max_retries: int) (retry_exceptions: "string list")

record fastmcp =
  mcp_name :: string
  on_duplicate_tools :: string
  on_duplicate_resources :: string
  on_duplicate_prompts :: string
  middleware :: "middleware list"

text \<open>The module-level server instance.\<close>

definition mcp :: fastmcp where
  "mcp = \<lparr>mcp_name = ''Instana MCP Server'', on_duplicate_tools = ''error'',
          on_duplicate_resources = ''error'', on_duplicate_prompts = ''error'',
          middleware = []\<rparr>"

text \<open>The framework's \<^verbatim>\<open>add_middleware\<close> appends the stage to the server's list.\<close>

definition add_middleware :: "fastmcp \<Rightarrow> middleware \<Rightarrow> fastmcp" where
  "add_middleware srv m = srv\<lparr>middleware := middleware srv @ [m]\<rparr>"

text \<open>
  The call that starts the transport: \<^verbatim>\<open>mcp.run()\<close>, or
  \<^verbatim>\<open>mcp.run(transport="http", host=..., port=...)\<close>. How serving ends is the
  framework's: the call returns, raises an exception, or is interrupted from the keyboard.
\<close>

datatype transport_call = RunStdio | RunHttp string int

datatype serve_end = ServeReturned | ServeRaised py_exception | ServeInterrupted

record run_result =
  run_server :: fastmcp
  run_transport :: transport_call
  run_end :: serve_end
  run_log :: "log_record list"

definition run ::
  "(fastmcp \<Rightarrow> transport_call \<Rightarrow> serve_end) \<Rightarrow> string option \<Rightarrow> int \<Rightarrow> fastmcp \<Rightarrow> run_result"
where
  "run serve mode port srv =
     (let srv1 = add_middleware srv LoggingMiddleware;
          srv2 = add_middleware srv1 TagBasedToolFilterMiddleware;
          srv3 = add_middleware srv2 (RateLimitingMiddleware 100 20);
          srv4 = add_middleware srv3 (RetryMiddleware 3 [''ConnectionError'', ''TimeoutError'']);
          added = [LogInfo ''Adding LoggingMiddleware'',
                   LogInfo ''Adding TagBasedToolFilterMiddleware'',
                   LogInfo ''Adding RateLimitingMiddleware'',
                   LogInfo ''Adding RetryMiddleware'']
      in if mode = Some ''streamable-http''
         then \<lparr>run_server = srv4, run_transport = RunHttp ''0.0.0.0'' port,
               run_end = serve srv4 (RunHttp ''0.0.0.0'' port),
               run_log = added @ [LogStartingHttp port]\<rparr>
         else \<lparr>run_server = srv4, run_transport = RunStdio,
               run_end = serve srv4 RunStdio,
               run_log = added @ [LogInfo ''Starting MCP server in stdio mode'']\<rparr>)"

section \<open>main.py\<close>

text \<open>\<^verbatim>\<open>v or d\<close> for a \<^verbatim>\<open>str | None\<close>.\<close>

definition str_or :: "string option \<Rightarrow> string \<Rightarrow> string" where
  "str_or v d = (case v of None \<Rightarrow> d | Some s \<Rightarrow> if s = [] then d else s)"

text \<open>
  \<^verbatim>\<open>validate_credentials\<close> reads the process environment, a map from names to strings
  (\<^verbatim>\<open>os.getenv\<close> gives \<^verbatim>\<open>None\<close> for a name that is not set).
\<close>

definition validate_credentials :: "(string \<Rightarrow> string option) \<Rightarrow> bool" where
  "validate_credentials env =
     (let token = str_or (env ''INSTANA_API_TOKEN'') [];
          base_url = str_or (env ''INSTANA_BASE_URL'') []
      in \<not> (token = [] \<or> base_url = []))"

text \<open>\<^verbatim>\<open>s.split(c)\<close> for a separator of one character.\<close>

fun split_on :: "char \<Rightarrow> string \<Rightarrow> string list" where
  "split_on c [] = [[]]"
| "split_on c (x # xs) =
     (if x = c then [] # split_on c xs
      else (case split_on c xs of
              [] \<Rightarrow> [[x]]
            | y # ys \<Rightarrow> (x # y) # ys))"

text \<open>The namespace that \<^verbatim>\<open>parse_args\<close> returns.\<close>

record args =
  arg_help :: bool
  arg_transport :: "string option"
  arg_tools :: "string option"
  arg_port :: int

text \<open>The options that \<^verbatim>\<open>main\<close> adds to the parser, in the order of the source.\<close>

record action =
  option_strings :: "string list"
  metavar :: "string option"
  action_help :: "string option"

definition parser_actions :: "action list" where
  "parser_actions =
     [\<lparr>option_strings = [''-h'', ''--help''], metavar = None,
       action_help = Some ''Show this help message and exit''\<rparr>,
      \<lparr>option_strings = [''--transport''], metavar = Some ''<mode>'',
       action_help = Some ''Set the transport mode: streamable-http, stdio. Defaults to stdio if not specified.''\<rparr>,
      \<lparr>option_strings = [''--tools''], metavar = Some ''<categoriy1,category2,...>'',
       action_help = Some ''Comma-separated list of tool categories to enable: infra,app,events,automation,website. If not provided, all tools are enabled.''\<rparr>,
      \<lparr>option_strings = [''--port''], metavar = None,
       action_help = Some ''Port to listen on (default: 8080, can be overridden with PORT env var)''\<rparr>]"

definition startswith :: "string \<Rightarrow> string \<Rightarrow> bool" where
  "startswith s p = (take (length p) s = p)"

text \<open>\<^verbatim>\<open>s.strip()\<close>, on strings whose only blanks are spaces.\<close>

definition strip :: "string \<Rightarrow> string" where
  "strip s = rev (dropWhile (\<lambda>c. c = CHR 0x20) (rev (dropWhile (\<lambda>c. c = CHR 0x20) s)))"

text \<open>\<^verbatim>\<open>f"{s:<24}"\<close>: the string, padded with spaces on the right to the width.\<close>

definition ljust :: "nat \<Rightarrow> string \<Rightarrow> string" where
  "ljust n s = s @ replicate (n - length s) (CHR 0x20)"

text \<open>The body of the loop over the parser's actions (lines 83-100): the lines it logs.\<close>

fun help_lines :: "action list \<Rightarrow> string list" where
  "help_lines [] = []"
| "help_lines (a # as) =
     (if list_ex (\<lambda>opt. startswith opt ''--'') (option_strings a) \<and> truthy (action_help a)
      then (case filter (\<lambda>opt. startswith opt ''--'') (option_strings a) of
              [] \<Rightarrow> help_lines as
            | long_opt # other \<Rightarrow>
                (ljust 24 (strip (long_opt @ [CHR 0x20] @ str_or (metavar a) [])) @ [CHR 0x20] @
                 str_or (action_help a) []) # help_lines as)
      else help_lines as)"

text \<open>
  Displaying the help (lines 81-101). With the parser above no statement of the block
  raises; \<open>fault = Some (k, e)\<close> is a run in which the exception \<open>e\<close> is raised after
  \<open>k\<close> lines have been logged, so that the handler of lines 102-104 is a branch of the
  model.
\<close>

definition show_help :: "(nat \<times> py_exception) option \<Rightarrow> log_record list \<times> py_exception option" where
  "show_help fault =
     (let lines = map LogInfo (''Available options:'' # help_lines parser_actions)
      in case fault of
           None \<Rightarrow> (lines, None)
         | Some (k, e) \<Rightarrow> (take k lines, Some e))"

definition help_args :: "string list" where
  "help_args = [''-h'', ''--h'', ''--help'', ''-help'']"

text \<open>
  What \<^verbatim>\<open>main\<close> runs in: the command line (\<^verbatim>\<open>sys.argv\<close>, the program name first), the
  environment, the values of \<^verbatim>\<open>settings\<close> at start, and the library calls whose code is
  not the repository's: the builtin \<^verbatim>\<open>int\<close> on a string, \<^verbatim>\<open>parser.parse_args()\<close> on
  \<^verbatim>\<open>sys.argv[1:]\<close> with the default of \<^verbatim>\<open>--port\<close> (\<open>Inl c\<close> is \<^verbatim>\<open>SystemExit(c)\<close>; argparse
  leaves with 2 on a command line it refuses), and how the transport's serving ends.
\<close>

record world =
  sys_argv :: "string list"
  environ :: "string \<Rightarrow> string option"
  init_settings :: settings
  py_int :: "string \<Rightarrow> py_exception + int"
  parse_args :: "string list \<Rightarrow> int \<Rightarrow> int + args"
  help_fault :: "(nat \<times> py_exception) option"
  serve :: "fastmcp \<Rightarrow> transport_call \<Rightarrow> serve_end"

text \<open>
  What is left of a run of \<^verbatim>\<open>main\<close>: the exit status of the process, the run of the
  server when \<^verbatim>\<open>server.run\<close> was called, the settings, and the records logged.
\<close>

record process =
  exit_status :: int
  started :: "run_result option"
  proc_settings :: settings
  proc_log :: "log_record list"

text \<open>
  \<^verbatim>\<open>main\<close>. \<^verbatim>\<open>sys.exit\<close> raises \<^verbatim>\<open>SystemExit\<close>, which no \<^verbatim>\<open>except Exception\<close> of the
  source catches: each \<^verbatim>\<open>sys.exit(c)\<close> ends the process with status \<open>c\<close>. The default of
  \<^verbatim>\<open>--port\<close>, \<^verbatim>\<open>int(os.getenv("PORT", "8080"))\<close>, is computed when the option is added
  (line 63), before the command line is looked at, inside the outer \<^verbatim>\<open>try\<close>.
  \<open>port_text\<close> is \<^verbatim>\<open>os.getenv("PORT", "8080")\<close>, \<open>help_requested\<close> the test of lines
  67-69 and \<open>other_args\<close> the list of line 72.
\<close>

definition port_text :: "(string \<Rightarrow> string option) \<Rightarrow> string" where
  "port_text env = (case env ''PORT'' of None \<Rightarrow> ''8080'' | Some p \<Rightarrow> p)"

definition help_requested :: "string list \<Rightarrow> bool" where
  "help_requested argv =
     (length argv > 1 \<and> list_ex (\<lambda>arg. arg \<in> set help_args) (drop 1 argv))"

definition other_args :: "string list \<Rightarrow> string list" where
  "other_args argv = filter (\<lambda>arg. arg \<notin> set help_args) (drop 1 argv)"

definition main :: "world \<Rightarrow> process" where
  "main w =
     (case py_int w (port_text (environ w)) of
        Inl e \<Rightarrow>
          \<lparr>exit_status = 1, started = None, proc_settings = init_settings w,
           proc_log = [LogError (''Server error: '' @ exc_text e)]\<rparr>
      | Inr port_default \<Rightarrow>
          if help_requested (sys_argv w)
          then
            (if other_args (sys_argv w) \<noteq> []
             then \<lparr>exit_status = 2, started = None, proc_settings = init_settings w,
                   proc_log = [LogError ''Argument -h/--h/--help/-help: not allowed with other arguments'']\<rparr>
             else (case show_help (help_fault w) of
                     (lines, None) \<Rightarrow>
                       \<lparr>exit_status = 0, started = None, proc_settings = init_settings w,
                        proc_log = lines\<rparr>
                   | (lines, Some e) \<Rightarrow>
                       \<lparr>exit_status = 0, started = None, proc_settings = init_settings w,
                        proc_log = lines @ [LogError (''Error displaying help: '' @ exc_text e)]\<rparr>))
          else
            (case parse_args w (drop 1 (sys_argv w)) port_default of
               Inl code \<Rightarrow>
                 \<lparr>exit_status = code, started = None, proc_settings = init_settings w,
                  proc_log = []\<rparr>
             | Inr a \<Rightarrow>
                 (let categories =
                        (if truthy (arg_tools a)
                         then Some (split_on (CHR 0x2C) (str_or (arg_tools a) []))
                         else None);
                      st = \<lparr>global_tool_categories = categories,
                            global_mcp_mode = str_or (arg_transport a) ''stdio''\<rparr>
                  in if (arg_transport a = Some ''stdio'' \<or> arg_transport a = None)
                        \<and> \<not> validate_credentials (environ w)
                     then \<lparr>exit_status = 1, started = None, proc_settings = st,
                           proc_log = [LogCategories categories,
                             LogError ''Error: Instana credentials are required for stdio mode but not provided. Please set INSTANA_API_TOKEN and INSTANA_BASE_URL environment variables.'']\<rparr>
                     else
                       (let r = run (serve w) (arg_transport a) (arg_port a) mcp
                        in case run_end r of
                             ServeReturned \<Rightarrow>
                               \<lparr>exit_status = 0, started = Some r, proc_settings = st,
                                proc_log = LogCategories categories # run_log r\<rparr>
                           | ServeRaised e \<Rightarrow>
                               \<lparr>exit_status = 1, started = Some r, proc_settings = st,
                                proc_log = LogCategories categories # run_log r @
                                  [LogError (''Failed to create MCP server: '' @ exc_text e)]\<rparr>
                           | ServeInterrupted \<Rightarrow>
                               \<lparr>exit_status = 0, started = Some r, proc_settings = st,
                                proc_log = LogCategories categories # run_log r @
                                  [LogInfo ''Server stopped by user'']\<rparr>))))"

text \<open>
  Two library functions, for the concrete runs below. \<open>int_decimal\<close> agrees with the
  builtin \<^verbatim>\<open>int\<close> on a string of ASCII decimal digits, which it reads, and on a string
  with no digit, blank, sign or underscore in it, which both refuse with \<^verbatim>\<open>ValueError\<close>;
  the concrete runs use no other string. \<open>parse_exact\<close> is \<^verbatim>\<open>parse_args\<close> on a command
  line that spells the options \<^verbatim>\<open>--transport\<close>, \<^verbatim>\<open>--tools\<close> and \<^verbatim>\<open>--port\<close> in full,
  each followed by its value.
\<close>

definition digit_of :: "char \<Rightarrow> nat option" where
  "digit_of c =
     (if 48 \<le> (of_char c :: nat) \<and> (of_char c :: nat) \<le> 57 then Some (of_char c - 48) else None)"

fun digits_value :: "nat \<Rightarrow> string \<Rightarrow> nat option" where
  "digits_value acc [] = Some acc"
| "digits_value acc (c # cs) =
     (case digit_of c of None \<Rightarrow> None | Some d \<Rightarrow> digits_value (10 * acc + d) cs)"

definition int_decimal :: "string \<Rightarrow> py_exception + int" where
  "int_decimal s =
     (case (if s = [] then None else digits_value 0 s) of
        None \<Rightarrow> Inl (PyException ''ValueError''
                      (''invalid literal for int() with base 10: '' @ quoted s))
      | Some n \<Rightarrow> Inr (int n))"

fun parse_opts :: "string list \<Rightarrow> args \<Rightarrow> int + args" where
  "parse_opts [] a = Inr a"
| "parse_opts [x] a = Inl 2"
| "parse_opts (opt # v # rest) a =
     (if opt = ''--transport''
      then (if v \<in> set [''streamable-http'', ''stdio'']
            then parse_opts rest (a\<lparr>arg_transport := Some v\<rparr>) else Inl 2)
      else if opt = ''--tools'' then parse_opts rest (a\<lparr>arg_tools := Some v\<rparr>)
      else if opt = ''--port''
      then (case int_decimal v of
              Inl e \<Rightarrow> Inl 2
            | Inr n \<Rightarrow> parse_opts rest (a\<lparr>arg_port := n\<rparr>))
      else Inl 2)"

definition parse_exact :: "string list \<Rightarrow> int \<Rightarrow> int + args" where
  "parse_exact argv port_default =
     parse_opts argv \<lparr>arg_help = False, arg_transport = None, arg_tools = None,
                      arg_port = port_default\<rparr>"

text \<open>
  A concrete run for the examples below: no argument on the command line, an empty
  environment, and serving that returns.
\<close>

definition example_world :: world where
  "example_world =
     \<lparr>sys_argv = [''mcp-instana''], environ = Map.empty,
      init_settings = \<lparr>global_tool_categories = None, global_mcp_mode = ''stdio''\<rparr>,
      py_int = int_decimal, parse_args = parse_exact, help_fault = None,
      serve = (\<lambda>srv call. ServeReturned)\<rparr>"

section \<open>tools/trending: \<^verbatim>\<open>list_top_applications_by_performance\<close>\<close>

text \<open>The request dictionary \<^verbatim>\<open>get_application_metrics\<close>.\<close>

record metric_spec =
  ms_aggregation :: "string option"
  ms_metric :: "string option"

record time_frame =
  tf_to :: int
  tf_windowSize :: "int option"

record get_application_metrics =
  includeInternal :: bool
  includeSynthetic :: bool
  metrics :: "metric_spec list"
  timeFrame :: time_frame

text \<open>
  The request context of the framework: \<^verbatim>\<open>ctx.error(msg)\<close> sends \<open>msg\<close> to the client.
\<close>

datatype request_context = Context

text \<open>
  What a call of the tool leaves: what it returns or raises, the requests it sent to the
  external API, the notifications it sent through the context, the records it logged.
\<close>

record 'd tool_run =
  outcome :: "py_exception + 'd"
  api_calls :: "get_application_metrics list"
  ctx_errors :: "string list"
  tool_log :: "log_record list"

definition ToolError :: "string \<Rightarrow> py_exception" where
  "ToolError msg = PyException ''ToolError'' msg"

text \<open>
  The body of \<^verbatim>\<open>list_top_applications_by_performance\<close>, on the values its parameters
  are bound to. \<open>now\<close> is the clock, \<^verbatim>\<open>int(datetime.now(timezone.utc).timestamp() * 1000)\<close>;
  \<open>api\<close> is \<^verbatim>\<open>get_application_data_metrics_v2\<close> followed by \<^verbatim>\<open>to_dict\<close>, both inside the
  \<^verbatim>\<open>try\<close>. The local \<^verbatim>\<open>to_time\<close> is assigned on line 49 only, under
  \<^verbatim>\<open>if to_time_ms is None\<close>; the dictionary of line 56 reads it outside the \<^verbatim>\<open>try\<close>.
  Entering \<^verbatim>\<open>instana_api_client_instance()\<close> (of the module \<^verbatim>\<open>utils\<close>) is taken to give
  the client.
\<close>

definition list_top_applications_by_performance ::
  "int \<Rightarrow> (get_application_metrics \<Rightarrow> py_exception + 'd) \<Rightarrow>
   string option \<Rightarrow> int option \<Rightarrow> int option \<Rightarrow> int option \<Rightarrow> string option \<Rightarrow> string option \<Rightarrow>
   request_context option \<Rightarrow> 'd tool_run"
where
  "list_top_applications_by_performance now api metric to_time_ms duration_ms top_n
       aggregation order ctx =
     (let to_time = (case to_time_ms of None \<Rightarrow> Some now | Some t \<Rightarrow> None)
      in case to_time of
           None \<Rightarrow>
             \<lparr>outcome = Inl (UnboundLocalError ''to_time''), api_calls = [], ctx_errors = [],
              tool_log = []\<rparr>
         | Some to_value \<Rightarrow>
             (let request =
                    \<lparr>includeInternal = True, includeSynthetic = True,
                     metrics = [\<lparr>ms_aggregation = aggregation, ms_metric = metric\<rparr>],
                     timeFrame = \<lparr>tf_to = to_value, tf_windowSize = duration_ms\<rparr>\<rparr>;
                  calling = LogDebug ''Calling Instana API get_application_data_metrics_v2''
              in case api request of
                   Inr result \<Rightarrow>
                     \<lparr>outcome = Inr result, api_calls = [request], ctx_errors = [],
                      tool_log = [calling]\<rparr>
                 | Inl e \<Rightarrow>
                     (let failed = ''Error calling tool list_top_applications_by_performance: ''
                                   @ exc_text e
                      in case ctx of
                           None \<Rightarrow>
                             \<lparr>outcome = Inl (AttributeError ''NoneType'' ''error''),
                              api_calls = [request], ctx_errors = [],
                              tool_log = [calling, LogError failed]\<rparr>
                         | Some c \<Rightarrow>
                             \<lparr>outcome = Inl (ToolError
                                (''Instana API call [get_application_data_metrics_v2] error: ''
                                 @ exc_text e)),
                              api_calls = [request], ctx_errors = [failed],
                              tool_log = [calling, LogError failed]\<rparr>)))"

text \<open>
  A call by keywords: a parameter the caller leaves out takes the default of the
  signature (lines 27-33).
\<close>

datatype 'a arg = Omitted | Passed 'a

definition bind_arg :: "'a \<Rightarrow> 'a arg \<Rightarrow> 'a" where
  "bind_arg d a = (case a of Omitted \<Rightarrow> d | Passed v \<Rightarrow> v)"

record kwargs =
  kw_metric :: "string option arg"
  kw_to_time_ms :: "int option arg"
  kw_duration_ms :: "int option arg"
  kw_top_n :: "int option arg"
  kw_aggregation :: "string option arg"
  kw_order :: "string option arg"
  kw_ctx :: "request_context option arg"

definition call_tool ::
  "int \<Rightarrow> (get_application_metrics \<Rightarrow> py_exception + 'd) \<Rightarrow> kwargs \<Rightarrow> 'd tool_run"
where
  "call_tool now api kw =
     list_top_applications_by_performance now api
       (bind_arg (Some ''latency'') (kw_metric kw))
       (bind_arg None (kw_to_time_ms kw))
       (bind_arg (Some (60 * 60 * 1000)) (kw_duration_ms kw))
       (bind_arg (Some 10) (kw_top_n kw))
       (bind_arg (Some ''MEAN'') (kw_aggregation kw))
       (bind_arg (Some ''desc'') (kw_order kw))
       (bind_arg None (kw_ctx kw))"

text \<open>A call that passes no keyword.\<close>

definition no_kwargs :: kwargs where
  "no_kwargs =
     \<lparr>kw_metric = Omitted, kw_to_time_ms = Omitted, kw_duration_ms = Omitted,
      kw_top_n = Omitted, kw_aggregation = Omitted, kw_order = Omitted, kw_ctx = Omitted\<rparr>"

section \<open>Properties\<close>

subsection \<open>The tag filter\<close>

text \<open>A split has at least one part, so \<^verbatim>\<open>main\<close> never configures an empty list.\<close>

lemma split_on_nonempty: "split_on c s \<noteq> []"
  by (induction s) (auto split: list.splits)

lemma filter_loop_filter:
  "filter_loop cats ts acc = acc @ filter (\<lambda>t. set cats \<inter> tool_tags t \<noteq> {}) ts"
  by (induction ts arbitrary: acc) simp_all


text \<open>
  C4. The tag filter, on the list that the downstream returned: when no category filter is
  configured (the setting is \<^verbatim>\<open>None\<close>, or the empty list) the list is returned as it is;
  otherwise the result is exactly the tools whose tags meet the configured categories, in
  their original order.
\<close>

theorem on_list_tools_filters:
  "(global_tool_categories st = None \<or> global_tool_categories st = Some [] \<longrightarrow>
      fst (on_list_tools st (Inr result)) = Inr result)
   \<and> (global_tool_categories st = Some cats \<and> cats \<noteq> [] \<longrightarrow>
      fst (on_list_tools st (Inr result)) =
        Inr (filter (\<lambda>t. set cats \<inter> tool_tags t \<noteq> {}) result))"
  by (auto simp: on_list_tools_def filter_loop_filter Let_def)

theorem on_list_tools_filters_witness:
  "fst (on_list_tools \<lparr>global_tool_categories = None, global_mcp_mode = ''stdio''\<rparr>
          (Inr [add_tool, sub_tool, top_tool])) = Inr [add_tool, sub_tool, top_tool]
   \<and> fst (on_list_tools
            \<lparr>global_tool_categories = Some [''tool'', ''infra''], global_mcp_mode = ''stdio''\<rparr>
          (Inr [add_tool, sub_tool, top_tool])) = Inr [add_tool, top_tool]"
proof -
  let ?tools = "[add_tool, sub_tool, top_tool]"
  let ?none = "\<lparr>global_tool_categories = None, global_mcp_mode = ''stdio''\<rparr>"
  let ?some = "\<lparr>global_tool_categories = Some [''tool'', ''infra''], global_mcp_mode = ''stdio''\<rparr>"
  have unfiltered: "fst (on_list_tools ?none (Inr ?tools)) = Inr ?tools"
    using on_list_tools_filters [of ?none ?tools] by simp
  have filtered: "fst (on_list_tools ?some (Inr ?tools)) = Inr [add_tool, top_tool]"
    using on_list_tools_filters [of ?some ?tools "[''tool'', ''infra'']"]
    by (simp add: add_tool_def sub_tool_def top_tool_def)
  from unfiltered filtered show ?thesis by blast
qed

subsection \<open>The logged form of the arguments\<close>

text \<open>
  C6. With the default bound of 100: a JSON serialization of at most 100 characters is
  logged as it is; a longer one is logged as its first 100 characters followed by
  \<^verbatim>\<open>...(truncated)\<close>, 114 characters in all; when the JSON serialization raises, the
  plain string form is used in its place (cut in the same way); when that raises too, the
  marker \<^verbatim>\<open><unserializable>\<close> is logged.
\<close>

theorem safe_dump_cases:
  "(json_dumps obj = Inr s \<and> length s \<le> 100 \<longrightarrow>
      safe_dump json_dumps py_str obj safe_dump_max_len = s)
   \<and> (json_dumps obj = Inr s \<and> length s > 100 \<longrightarrow>
      safe_dump json_dumps py_str obj safe_dump_max_len = take 100 s @ ''...(truncated)''
      \<and> length (safe_dump json_dumps py_str obj safe_dump_max_len) = 100 + 14)
   \<and> (json_dumps obj = Inl e \<and> py_str obj = Inr t \<longrightarrow>
      safe_dump json_dumps py_str obj safe_dump_max_len =
        (if length t \<le> 100 then t else take 100 t @ ''...(truncated)''))
   \<and> (json_dumps obj = Inl e \<and> py_str obj = Inl e' \<longrightarrow>
      safe_dump json_dumps py_str obj safe_dump_max_len = ''<unserializable>'')"
  by (auto simp: safe_dump_def safe_dump_max_len_def slice_to_def Let_def)

theorem safe_dump_cases_witness:
  "safe_dump (\<lambda>n. Inr (replicate n CHR ''a'')) (\<lambda>n. Inr ''obj'') (250::nat) safe_dump_max_len
     = replicate 100 CHR ''a'' @ ''...(truncated)''
   \<and> length (safe_dump (\<lambda>n. Inr (replicate n CHR ''a'')) (\<lambda>n. Inr ''obj'') (250::nat)
               safe_dump_max_len) = 114
   \<and> safe_dump (\<lambda>n. Inr (replicate n CHR ''a'')) (\<lambda>n. Inr ''obj'') (3::nat) safe_dump_max_len
     = replicate 3 CHR ''a''
   \<and> safe_dump (\<lambda>n. Inl (PyException ''TypeError'' ''circular'')) (\<lambda>n. Inr ''obj'') (3::nat)
       safe_dump_max_len = ''obj''
   \<and> safe_dump (\<lambda>n. Inl (PyException ''TypeError'' ''circular''))
        (\<lambda>n. Inl (PyException ''RuntimeError'' ''bad'')) (3::nat) safe_dump_max_len
     = ''<unserializable>''"
proof -
  let ?dumps = "\<lambda>n. Inr (replicate n CHR ''a'') :: py_exception + string"
  let ?fails = "\<lambda>n::nat. Inl (PyException ''TypeError'' ''circular'') :: py_exception + string"
  let ?str = "\<lambda>n::nat. Inr ''obj'' :: py_exception + string"
  let ?nostr = "\<lambda>n::nat. Inl (PyException ''RuntimeError'' ''bad'') :: py_exception + string"
  have long:
    "safe_dump ?dumps ?str 250 safe_dump_max_len = replicate 100 CHR ''a'' @ ''...(truncated)''
     \<and> length (safe_dump ?dumps ?str 250 safe_dump_max_len) = 114"
    using safe_dump_cases [of ?dumps 250 "replicate 250 CHR ''a''" ?str] by simp
  have short: "safe_dump ?dumps ?str 3 safe_dump_max_len = replicate 3 CHR ''a''"
    using safe_dump_cases [of ?dumps 3 "replicate 3 CHR ''a''" ?str] by simp
  have plain: "safe_dump ?fails ?str 3 safe_dump_max_len = ''obj''"
    using safe_dump_cases [of ?fails 3 _ ?str "PyException ''TypeError'' ''circular''" "''obj''"]
    by simp
  have marker: "safe_dump ?fails ?nostr 3 safe_dump_max_len = ''<unserializable>''"
    using safe_dump_cases [of ?fails 3 _ ?nostr "PyException ''TypeError'' ''circular''" _
        "PyException ''RuntimeError'' ''bad''"]
    by simp
  from long short plain marker show ?thesis by blast
qed

subsection \<open>The logging stage\<close>

text \<open>
  The statements of the first \<^verbatim>\<open>try\<close> can raise: on a tool call whose context names no
  method, line 45 asks the parameters object for \<^verbatim>\<open>get\<close>. Then neither \<^verbatim>\<open>method\<close> nor
  \<^verbatim>\<open>tool_name\<close> is assigned, and the second \<^verbatim>\<open>try\<close> raises when it reads them.
\<close>

lemma inspect_can_raise:
  "read_method \<lparr>ctx_message = MsgCallTool ''t'' (Some (0::nat)), ctx_method = None,
                ctx_source = Some ''client''\<rparr>
     = Inl (AttributeError ''CallToolRequestParams'' ''get'')"
  by (simp add: read_method_def truthy_def)

lemma completion_can_raise:
  "log_completion \<lparr>loc_method = None, loc_tool_name = None\<rparr>
     = Inl (UnboundLocalError ''tool_name'')"
  by (simp add: log_completion_def)

text \<open>
  C10. For every message, whatever the two logging blocks do (also when they raise), the
  outcome of \<^verbatim>\<open>on_message\<close> and the state the downstream handler leaves are those of
  one call of the handler on the context: its result comes back unchanged, and its
  exception propagates unchanged.
\<close>

theorem on_message_transparent:
  "(case on_message json_dumps py_str c call_next s of (r, s', logged) \<Rightarrow> (r, s'))
     = call_next c s"
  by (simp add: on_message_def split: prod.splits sum.splits)

theorem on_message_transparent_witness:
  "on_message (\<lambda>a::nat. Inr ''{}'') (\<lambda>a. Inr ''x'')
      \<lparr>ctx_message = MsgCallTool ''t'' (Some 0), ctx_method = None, ctx_source = Some ''client''\<rparr>
      (\<lambda>c n::nat. (Inr ''result'', n + 1)) 0
    = (Inr ''result'', 1,
       [LogInspectFailed (AttributeError ''CallToolRequestParams'' ''get'')])"
  using on_message_transparent [of "\<lambda>a::nat. Inr ''{}''" "\<lambda>a. Inr ''x''"
      "\<lparr>ctx_message = MsgCallTool ''t'' (Some 0), ctx_method = None, ctx_source = Some ''client''\<rparr>"
      "\<lambda>c n::nat. (Inr ''result'', n + 1)" 0]
  by (simp add: on_message_def inspect_message_def read_method_def truthy_def log_completion_def
      split: prod.splits)

subsection \<open>The middleware chain\<close>

text \<open>
  C8. \<^verbatim>\<open>run\<close> appends four stages to the server, in the order logging, tag filter, rate
  limiting (100 requests per second, burst capacity 20), retry (3 retries, on
  \<^verbatim>\<open>ConnectionError\<close> and \<^verbatim>\<open>TimeoutError\<close>); on the module's server, which has none, they
  are the only four. The transport is started on the server that holds them: standard
  input and output, unless the mode is \<^verbatim>\<open>streamable-http\<close>, where it is HTTP on host
  \<^verbatim>\<open>0.0.0.0\<close> and the given port.
\<close>

theorem run_registers_middleware:
  "middleware (run_server (run serving mode port srv)) =
     middleware srv @
       [LoggingMiddleware, TagBasedToolFilterMiddleware, RateLimitingMiddleware 100 20,
        RetryMiddleware 3 [''ConnectionError'', ''TimeoutError'']]
   \<and> middleware (run_server (run serving mode port mcp)) =
       [LoggingMiddleware, TagBasedToolFilterMiddleware, RateLimitingMiddleware 100 20,
        RetryMiddleware 3 [''ConnectionError'', ''TimeoutError'']]
   \<and> run_transport (run serving mode port srv) =
       (if mode = Some ''streamable-http'' then RunHttp ''0.0.0.0'' port else RunStdio)
   \<and> run_end (run serving mode port srv) =
       serving (run_server (run serving mode port srv)) (run_transport (run serving mode port srv))"
  by (simp add: run_def add_middleware_def mcp_def Let_def)

subsection \<open>Startup: credentials and transport\<close>

lemma int_decimal_8080: "int_decimal ''8080'' = Inr 8080"
  by (simp add: int_decimal_def digit_of_def)

lemma example_port: "py_int example_world (port_text (environ example_world)) = Inr 8080"
  by (simp add: example_world_def port_text_def int_decimal_8080)

lemma parse_exact_none:
  "parse_exact [] p =
     Inr \<lparr>arg_help = False, arg_transport = None, arg_tools = None, arg_port = p\<rparr>"
  by (simp add: parse_exact_def)

lemma parse_exact_http:
  "parse_exact [''--transport'', ''streamable-http''] p =
     Inr \<lparr>arg_help = False, arg_transport = Some ''streamable-http'', arg_tools = None,
          arg_port = p\<rparr>"
  by (simp add: parse_exact_def)

lemma validate_credentials_iff:
  "validate_credentials env \<longleftrightarrow>
     (\<exists>t u. env ''INSTANA_API_TOKEN'' = Some t \<and> t \<noteq> []
            \<and> env ''INSTANA_BASE_URL'' = Some u \<and> u \<noteq> [])"
  by (auto simp: validate_credentials_def str_or_def Let_def split: option.splits)

text \<open>
  A startup in stdio mode is a run that gets to line 115 with no transport, or the
  transport \<^verbatim>\<open>stdio\<close>, among the parsed arguments: the default of the port was computed,
  no help flag was on the command line, and the parser accepted the command line.
\<close>

lemma main_stdio_no_credentials:
  assumes "py_int w (port_text (environ w)) = Inr p"
    and "\<not> help_requested (sys_argv w)"
    and "parse_args w (drop 1 (sys_argv w)) p = Inr a"
    and "arg_transport a = Some ''stdio'' \<or> arg_transport a = None"
    and "\<not> validate_credentials (environ w)"
  shows "exit_status (main w) = 1 \<and> started (main w) = None"
  using assms by (simp add: main_def Let_def)

lemma main_http_starts:
  assumes "py_int w (port_text (environ w)) = Inr p"
    and "\<not> help_requested (sys_argv w)"
    and "parse_args w (drop 1 (sys_argv w)) p = Inr a"
    and "arg_transport a = Some ''streamable-http''"
  shows "started (main w) = Some (run (serve w) (Some ''streamable-http'') (arg_port a) mcp)"
  using assms by (simp add: main_def Let_def split: serve_end.splits)

text \<open>
  C3. In a startup in stdio mode (the transport is \<^verbatim>\<open>stdio\<close>, or is not given), when the
  environment lacks the API token or the base URL, the process exits with status 1 and
  \<^verbatim>\<open>server.run\<close> is never called. In a startup with the transport \<^verbatim>\<open>streamable-http\<close>
  the credentials are not looked at: \<^verbatim>\<open>server.run\<close> is called, with the HTTP transport,
  whatever the environment holds.
\<close>

theorem stdio_requires_credentials:
  assumes "py_int w (port_text (environ w)) = Inr p"
    and "\<not> help_requested (sys_argv w)"
    and "parse_args w (drop 1 (sys_argv w)) p = Inr a"
  shows "((arg_transport a = Some ''stdio'' \<or> arg_transport a = None)
            \<and> \<not> validate_credentials (environ w)
          \<longrightarrow> exit_status (main w) = 1 \<and> started (main w) = None)
       \<and> (arg_transport a = Some ''streamable-http''
          \<longrightarrow> started (main w) = Some (run (serve w) (Some ''streamable-http'') (arg_port a) mcp)
              \<and> run_transport (run (serve w) (Some ''streamable-http'') (arg_port a) mcp)
                  = RunHttp ''0.0.0.0'' (arg_port a))"
  using main_stdio_no_credentials [OF assms] main_http_starts [OF assms]
  by (simp add: run_def Let_def)

theorem stdio_requires_credentials_witness:
  "exit_status (main example_world) = 1 \<and> started (main example_world) = None
   \<and> started (main (example_world
                      \<lparr>sys_argv := [''mcp-instana'', ''--transport'', ''streamable-http'']\<rparr>))
       = Some (run (\<lambda>srv call. ServeReturned) (Some ''streamable-http'') 8080 mcp)
   \<and> run_transport (run (\<lambda>srv call. ServeReturned) (Some ''streamable-http'') 8080 mcp)
       = RunHttp ''0.0.0.0'' 8080"
proof -
  let ?a = "\<lparr>arg_help = False, arg_transport = None, arg_tools = None, arg_port = 8080\<rparr>"
  let ?w = "example_world\<lparr>sys_argv := [''mcp-instana'', ''--transport'', ''streamable-http'']\<rparr>"
  let ?b = "\<lparr>arg_help = False, arg_transport = Some ''streamable-http'', arg_tools = None,
             arg_port = 8080\<rparr>"
  have p1: "py_int example_world (port_text (environ example_world)) = Inr 8080"
    by (rule example_port)
  have h1: "\<not> help_requested (sys_argv example_world)"
    by (simp add: example_world_def help_requested_def)
  have a1: "parse_args example_world (drop 1 (sys_argv example_world)) 8080 = Inr ?a"
    by (simp add: example_world_def parse_exact_none)
  have c1: "\<not> validate_credentials (environ example_world)"
    by (simp add: example_world_def validate_credentials_def str_or_def)
  have stdio: "exit_status (main example_world) = 1 \<and> started (main example_world) = None"
    using stdio_requires_credentials [OF p1 h1 a1] c1 by simp
  have p2: "py_int ?w (port_text (environ ?w)) = Inr 8080"
    by (simp add: example_world_def port_text_def int_decimal_8080)
  have h2: "\<not> help_requested (sys_argv ?w)"
    by (simp add: help_requested_def help_args_def)
  have a2: "parse_args ?w (drop 1 (sys_argv ?w)) 8080 = Inr ?b"
    by (simp add: example_world_def parse_exact_http)
  have http: "started (main ?w) = Some (run (serve ?w) (Some ''streamable-http'') 8080 mcp)
      \<and> run_transport (run (serve ?w) (Some ''streamable-http'') 8080 mcp)
          = RunHttp ''0.0.0.0'' 8080"
    using stdio_requires_credentials [OF p2 h2 a2] by simp
  have s2: "serve ?w = (\<lambda>srv call. ServeReturned)"
    by (simp add: example_world_def)
  from stdio http s2 show ?thesis by simp
qed

text \<open>
  \<^verbatim>\<open>main\<close> reads the environment through the text of the port and through
  \<^verbatim>\<open>validate_credentials\<close> only.
\<close>

lemma main_cong:
  assumes "port_text (environ w') = port_text (environ w)"
    and "validate_credentials (environ w') = validate_credentials (environ w)"
    and "sys_argv w' = sys_argv w" and "init_settings w' = init_settings w"
    and "py_int w' = py_int w" and "parse_args w' = parse_args w"
    and "help_fault w' = help_fault w" and "serve w' = serve w"
  shows "main w' = main w"
  unfolding main_def assms by (rule refl)

text \<open>
  C9. When \<^verbatim>\<open>INSTANA_API_TOKEN\<close> or \<^verbatim>\<open>INSTANA_BASE_URL\<close> is set to the empty string,
  \<^verbatim>\<open>validate_credentials\<close> is false, as it is with the variable removed; the whole run
  of \<^verbatim>\<open>main\<close> is the run with the variable removed; and a startup in stdio mode exits
  with status 1 without calling \<^verbatim>\<open>server.run\<close>.
\<close>

theorem empty_credential_is_absent:
  assumes "k = ''INSTANA_API_TOKEN'' \<or> k = ''INSTANA_BASE_URL''"
    and "environ w k = Some []"
  shows "\<not> validate_credentials (environ w)
       \<and> \<not> validate_credentials ((environ w)(k := None))
       \<and> main (w\<lparr>environ := (environ w)(k := None)\<rparr>) = main w
       \<and> (py_int w (port_text (environ w)) = Inr p \<and> \<not> help_requested (sys_argv w)
            \<and> parse_args w (drop 1 (sys_argv w)) p = Inr a
            \<and> (arg_transport a = Some ''stdio'' \<or> arg_transport a = None)
          \<longrightarrow> exit_status (main w) = 1 \<and> started (main w) = None)"
proof -
  have v1: "\<not> validate_credentials (environ w)"
    using assms by (auto simp: validate_credentials_def str_or_def Let_def)
  have v2: "\<not> validate_credentials ((environ w)(k := None))"
    using assms by (auto simp: validate_credentials_def str_or_def Let_def)
  have pt: "port_text ((environ w)(k := None)) = port_text (environ w)"
    using assms by (auto simp: port_text_def)
  have m: "main (w\<lparr>environ := (environ w)(k := None)\<rparr>) = main w"
    by (rule main_cong) (simp_all add: v1 v2 pt)
  have s: "py_int w (port_text (environ w)) = Inr p \<and> \<not> help_requested (sys_argv w)
            \<and> parse_args w (drop 1 (sys_argv w)) p = Inr a
            \<and> (arg_transport a = Some ''stdio'' \<or> arg_transport a = None)
          \<longrightarrow> exit_status (main w) = 1 \<and> started (main w) = None"
    using main_stdio_no_credentials [of w p a] v1 by blast
  from v1 v2 m s show ?thesis by blast
qed

theorem empty_credential_is_absent_witness:
  "\<not> validate_credentials
       [''INSTANA_API_TOKEN'' \<mapsto> [], ''INSTANA_BASE_URL'' \<mapsto> ''https://instana.example'']
   \<and> main (example_world\<lparr>environ :=
        [''INSTANA_API_TOKEN'' \<mapsto> [], ''INSTANA_BASE_URL'' \<mapsto> ''https://instana.example'']\<rparr>)
     = main (example_world\<lparr>environ := [''INSTANA_BASE_URL'' \<mapsto> ''https://instana.example'']\<rparr>)
   \<and> exit_status (main (example_world\<lparr>environ :=
        [''INSTANA_API_TOKEN'' \<mapsto> [], ''INSTANA_BASE_URL'' \<mapsto> ''https://instana.example'']\<rparr>))
     = 1"
proof -
  let ?env = "[''INSTANA_API_TOKEN'' \<mapsto> [], ''INSTANA_BASE_URL'' \<mapsto> ''https://instana.example'']"
  let ?w = "example_world\<lparr>environ := ?env\<rparr>"
  let ?a = "\<lparr>arg_help = False, arg_transport = None, arg_tools = None, arg_port = 8080\<rparr>"
  have k: "''INSTANA_API_TOKEN'' = ''INSTANA_API_TOKEN''
           \<or> ''INSTANA_API_TOKEN'' = ''INSTANA_BASE_URL''"
    by simp
  have e: "environ ?w ''INSTANA_API_TOKEN'' = Some []"
    by simp
  have unset: "(environ ?w)(''INSTANA_API_TOKEN'' := None)
               = [''INSTANA_BASE_URL'' \<mapsto> ''https://instana.example'']"
    by (rule ext) simp
  have p: "py_int ?w (port_text (environ ?w)) = Inr 8080"
    by (simp add: example_world_def port_text_def int_decimal_8080)
  have h: "\<not> help_requested (sys_argv ?w)"
    by (simp add: example_world_def help_requested_def)
  have a: "parse_args ?w (drop 1 (sys_argv ?w)) 8080 = Inr ?a"
    by (simp add: example_world_def parse_exact_none)
  have t: "arg_transport ?a = Some ''stdio'' \<or> arg_transport ?a = None"
    by simp
  note facts = empty_credential_is_absent [OF k e, of 8080 ?a]
  have "\<not> validate_credentials (environ ?w)" using facts by blast
  moreover have "main (?w\<lparr>environ := (environ ?w)(''INSTANA_API_TOKEN'' := None)\<rparr>) = main ?w"
    using facts by blast
  moreover have "exit_status (main ?w) = 1" using facts p h a t by blast
  ultimately show ?thesis using unset by simp
qed

subsection \<open>Startup: the help flags\<close>

text \<open>The help as it is logged when nothing fails.\<close>

lemma show_help_lines:
  "fst (show_help None) =
     [LogInfo ''Available options:'',
      LogInfo ''--help                   Show this help message and exit'',
      LogInfo ''--transport <mode>       Set the transport mode: streamable-http, stdio. Defaults to stdio if not specified.'',
      LogInfo ''--tools <categoriy1,category2,...> Comma-separated list of tool categories to enable: infra,app,events,automation,website. If not provided, all tools are enabled.'',
      LogInfo ''--port                   Port to listen on (default: 8080, can be overridden with PORT env var)'']"
  by (simp add: show_help_def parser_actions_def startswith_def truthy_def strip_def ljust_def
      str_or_def eval_nat_numeral)

text \<open>
  C7, as the code has it. The default of \<^verbatim>\<open>--port\<close> is computed before the command line
  is looked at; when the text of \<^verbatim>\<open>PORT\<close> is a number: a command line with a help flag and
  nothing but help flags logs the help and exits with status 0, also when displaying the
  help raises; a command line with a help flag and any other argument exits with status
  2; in both cases \<^verbatim>\<open>server.run\<close> is never called.
\<close>

theorem help_exit_status:
  assumes "py_int w (port_text (environ w)) = Inr p"
    and "help_requested (sys_argv w)"
  shows "(other_args (sys_argv w) = [] \<longrightarrow>
            exit_status (main w) = 0 \<and> started (main w) = None
            \<and> (help_fault w = None \<longrightarrow>
                 proc_log (main w)
                   = map LogInfo (''Available options:'' # help_lines parser_actions)))
       \<and> (other_args (sys_argv w) \<noteq> [] \<longrightarrow>
            exit_status (main w) = 2 \<and> started (main w) = None)"
  using assms by (auto simp: main_def show_help_def Let_def split: option.splits prod.splits)

theorem help_exit_status_witness:
  "exit_status (main (example_world\<lparr>sys_argv := [''mcp-instana'', ''--help'']\<rparr>)) = 0
   \<and> started (main (example_world\<lparr>sys_argv := [''mcp-instana'', ''--help'']\<rparr>)) = None
   \<and> exit_status (main (example_world
        \<lparr>sys_argv := [''mcp-instana'', ''--help'', ''--tools'', ''infra'']\<rparr>)) = 2
   \<and> started (main (example_world
        \<lparr>sys_argv := [''mcp-instana'', ''--help'', ''--tools'', ''infra'']\<rparr>)) = None"
proof -
  let ?w = "example_world\<lparr>sys_argv := [''mcp-instana'', ''--help'']\<rparr>"
  let ?v = "example_world\<lparr>sys_argv := [''mcp-instana'', ''--help'', ''--tools'', ''infra'']\<rparr>"
  have pw: "py_int ?w (port_text (environ ?w)) = Inr 8080"
    by (simp add: example_world_def port_text_def int_decimal_8080)
  have hw: "help_requested (sys_argv ?w)"
    by (simp add: help_requested_def help_args_def)
  have ow: "other_args (sys_argv ?w) = []"
    by (simp add: other_args_def help_args_def)
  have only: "exit_status (main ?w) = 0 \<and> started (main ?w) = None"
    using help_exit_status [OF pw hw] ow by simp
  have pv: "py_int ?v (port_text (environ ?v)) = Inr 8080"
    by (simp add: example_world_def port_text_def int_decimal_8080)
  have hv: "help_requested (sys_argv ?v)"
    by (simp add: help_requested_def help_args_def)
  have ov: "other_args (sys_argv ?v) \<noteq> []"
    by (simp add: other_args_def help_args_def)
  have combined: "exit_status (main ?v) = 2 \<and> started (main ?v) = None"
    using help_exit_status [OF pv hv] ov by simp
  from only combined show ?thesis by simp
qed

text \<open>
  C7 as it is stated fails: with \<^verbatim>\<open>PORT=abc\<close> in the environment, the command line
  \<^verbatim>\<open>--help\<close>, whose only argument is the help flag, ends with status 1. The conversion
  of line 63 raises \<^verbatim>\<open>ValueError\<close> inside the outer \<^verbatim>\<open>try\<close>, and the handler of line 133
  exits with 1.
\<close>

theorem help_with_invalid_port_counterexample:
  "help_requested [''mcp-instana'', ''--help'']
   \<and> other_args [''mcp-instana'', ''--help''] = []
   \<and> exit_status (main (example_world\<lparr>sys_argv := [''mcp-instana'', ''--help''],
                                       environ := [''PORT'' \<mapsto> ''abc'']\<rparr>)) = 1"
  by (simp add: help_requested_def other_args_def help_args_def main_def example_world_def
      port_text_def int_decimal_def digit_of_def)

subsection \<open>The tool \<^verbatim>\<open>list_top_applications_by_performance\<close>\<close>

text \<open>
  When \<^verbatim>\<open>to_time_ms\<close> is \<^verbatim>\<open>None\<close> the tool sends one request, whose time frame ends at
  the current time and whose window is \<^verbatim>\<open>duration_ms\<close>, one hour when the caller leaves
  the duration out.
\<close>

lemma request_when_to_time_absent:
  "api_calls (list_top_applications_by_performance now api metric None duration_ms top_n
       aggregation order ctx) =
     [\<lparr>includeInternal = True, includeSynthetic = True,
       metrics = [\<lparr>ms_aggregation = aggregation, ms_metric = metric\<rparr>],
       timeFrame = \<lparr>tf_to = now, tf_windowSize = duration_ms\<rparr>\<rparr>]"
  by (simp add: list_top_applications_by_performance_def Let_def split: sum.splits option.splits)

lemma request_by_default:
  "api_calls (call_tool now api no_kwargs) =
     [\<lparr>includeInternal = True, includeSynthetic = True,
       metrics = [\<lparr>ms_aggregation = Some ''MEAN'', ms_metric = Some ''latency''\<rparr>],
       timeFrame = \<lparr>tf_to = now, tf_windowSize = Some 3600000\<rparr>\<rparr>]"
  by (simp add: call_tool_def no_kwargs_def bind_arg_def request_when_to_time_absent)

lemma no_request_when_to_time_supplied:
  "list_top_applications_by_performance now api metric (Some t) duration_ms top_n
       aggregation order ctx =
     \<lparr>outcome = Inl (UnboundLocalError ''to_time''), api_calls = [], ctx_errors = [],
      tool_log = []\<rparr>"
  by (simp add: list_top_applications_by_performance_def)

text \<open>
  C1 says that the request carries the caller's \<^verbatim>\<open>to_time_ms\<close> when one is supplied.
  The code at \<^verbatim>\<open>to_time_ms = 1618081200000\<close>, the value of the docstring: the local
  \<^verbatim>\<open>to_time\<close> is never assigned, building the request raises \<^verbatim>\<open>UnboundLocalError\<close>, and
  no request is sent.
\<close>

theorem supplied_to_time_never_reaches_request:
  "outcome (call_tool now api (no_kwargs\<lparr>kw_to_time_ms := Passed (Some 1618081200000)\<rparr>))
     = Inl (UnboundLocalError ''to_time'')
   \<and> api_calls (call_tool now api (no_kwargs\<lparr>kw_to_time_ms := Passed (Some 1618081200000)\<rparr>))
     = []"
  by (simp add: call_tool_def no_kwargs_def bind_arg_def no_request_when_to_time_supplied)

text \<open>
  With a request context, a failure of the external call becomes a \<^verbatim>\<open>ToolError\<close> that
  names the operation and carries the text of the exception, after one notification
  through the context.
\<close>

lemma tool_error_with_context:
  "api \<lparr>includeInternal = True, includeSynthetic = True,
        metrics = [\<lparr>ms_aggregation = aggregation, ms_metric = metric\<rparr>],
        timeFrame = \<lparr>tf_to = now, tf_windowSize = duration_ms\<rparr>\<rparr> = Inl e \<Longrightarrow>
   outcome (list_top_applications_by_performance now api metric None duration_ms top_n
       aggregation order (Some c)) =
     Inl (ToolError (''Instana API call [get_application_data_metrics_v2] error: '' @ exc_text e))
   \<and> ctx_errors (list_top_applications_by_performance now api metric None duration_ms top_n
       aggregation order (Some c)) =
     [''Error calling tool list_top_applications_by_performance: '' @ exc_text e]"
  by (simp add: list_top_applications_by_performance_def Let_def)

text \<open>
  C2 says that a missing context does not keep the \<^verbatim>\<open>ToolError\<close> from being raised. The
  code with no context (\<^verbatim>\<open>ctx\<close> left out, so \<^verbatim>\<open>None\<close>) and an external call that raises
  \<^verbatim>\<open>ConnectionError\<close>: line 74 calls \<^verbatim>\<open>ctx.error\<close> on \<^verbatim>\<open>None\<close>, and the call ends with that
  \<^verbatim>\<open>AttributeError\<close>, which is no \<^verbatim>\<open>ToolError\<close>.
\<close>

theorem missing_context_hides_tool_error:
  "outcome (call_tool now (\<lambda>request. Inl (PyException ''ConnectionError'' ''connection refused''))
              no_kwargs)
     = Inl (AttributeError ''NoneType'' ''error'')
   \<and> exc_type (AttributeError ''NoneType'' ''error'') \<noteq> exc_type (ToolError msg)"
  by (simp add: call_tool_def no_kwargs_def bind_arg_def list_top_applications_by_performance_def
      Let_def AttributeError_def ToolError_def)


end
